theory Spec2Isabelle
  imports Complex_Main
begin

section \<open>The keyframe-trimming pipeline of \<^verbatim>\<open>ffmpeg_pipeline.py\<close>\<close>

text \<open>
  Timestamps are Python floats. The locator compares them, adds the constant \<open>0.1\<close>
  and subtracts two of them. Its functions are written once, for any type with the two
  comparisons, and used at two types: at \<open>real\<close>, where the ordering is the one of the
  program on finite floats and the two arithmetic operations are exact, and at
  \<open>pyfloat\<close>, the binary64 values with infinities and NaN, where the addition and the
  subtraction of the machine are parameters. Exceptions are values of \<open>py_exc\<close>; a
  function that can raise returns \<open>py_exc + 'a\<close> with \<open>Inl\<close> the exception.
\<close>

subsection \<open>Exceptions and Python built-ins\<close>

datatype py_exc =
    CalledProcessError int "string list"
  | IndexError
  | OSError
  | UnicodeDecodeError
  | SystemExit_InputNotFound string
  | SystemExit_SrtNotFound string
  | ProbeError

text \<open>
  \<^verbatim>\<open>max(a, b)\<close> and \<^verbatim>\<open>min\<close>/\<^verbatim>\<open>max\<close> over an iterable keep the first
  extremal item: the running value is replaced only by a strictly larger (smaller) one.
  With \<^verbatim>\<open>default=d\<close> an empty iterable gives \<open>d\<close> and nothing is raised.
\<close>

definition py_max2 :: "'a::ord \<Rightarrow> 'a \<Rightarrow> 'a" where
  "py_max2 a b = (if b > a then b else a)"

fun py_max_from :: "'a::ord \<Rightarrow> 'a list \<Rightarrow> 'a" where
  "py_max_from m [] = m"
| "py_max_from m (x # xs) = py_max_from (if x > m then x else m) xs"

fun py_min_from :: "'a::ord \<Rightarrow> 'a list \<Rightarrow> 'a" where
  "py_min_from m [] = m"
| "py_min_from m (x # xs) = py_min_from (if x < m then x else m) xs"

definition py_max_default :: "'a::ord list \<Rightarrow> 'a \<Rightarrow> 'a" where
  "py_max_default xs d = (case xs of [] \<Rightarrow> d | x # xs' \<Rightarrow> py_max_from x xs')"

definition py_min_default :: "'a::ord list \<Rightarrow> 'a \<Rightarrow> 'a" where
  "py_min_default xs d = (case xs of [] \<Rightarrow> d | x # xs' \<Rightarrow> py_min_from x xs')"

text \<open>\<^verbatim>\<open>times[-1]\<close>: the last element, \<^verbatim>\<open>IndexError\<close> on the empty list.\<close>

definition py_index_last :: "'a list \<Rightarrow> py_exc + 'a" where
  "py_index_last xs = (if xs = [] then Inl IndexError else Inr (last xs))"

subsection \<open>The two keyframe searches\<close>

text \<open>
  \<^verbatim>\<open>max((kf for kf in times if kf <= t), default=0.0)\<close>: the generator is the
  filtered list; nothing here can raise. The parameter \<^verbatim>\<open>times\<close> is written
  \<open>tms\<close> (\<open>times\<close> is the multiplication of HOL).
\<close>

definition find_keyframe_before_or_equal :: "'a::{ord,zero} list \<Rightarrow> 'a \<Rightarrow> 'a" where
  "find_keyframe_before_or_equal tms t = py_max_default (filter (\<lambda>kf. kf \<le> t) tms) 0"

text \<open>
  \<^verbatim>\<open>min((kf for kf in times if kf >= t), default=times[-1] if times else t)\<close>.
  The default is an argument, so it is evaluated before \<^verbatim>\<open>min\<close> runs, whether or
  not it is used; the conditional expression decides whether \<^verbatim>\<open>times[-1]\<close> is
  evaluated at all.
\<close>

definition find_keyframe_after_or_equal :: "'a::ord list \<Rightarrow> 'a \<Rightarrow> py_exc + 'a" where
  "find_keyframe_after_or_equal tms t =
     (case (if tms \<noteq> [] then py_index_last tms else Inr t) of
        Inl exc \<Rightarrow> Inl exc
      | Inr d \<Rightarrow> Inr (py_min_default (filter (\<lambda>kf. kf \<ge> t) tms) d))"

subsection \<open>The locator: lines 128 to 137 of \<^verbatim>\<open>main\<close>\<close>

record 'a aligned_range =
  start_kf :: 'a
  end_kf :: 'a
  duration :: 'a

text \<open>
  The block of \<^verbatim>\<open>main\<close> that turns the keyframes and the requested range
  \<open>(start, end)\<close> into \<open>start_kf\<close>, \<open>end_kf\<close> and \<open>duration\<close>. The warning
  printed in the branch without keyframes is added by \<open>main\<close> below. The float
  addition \<^verbatim>\<open>+\<close>, the float subtraction \<^verbatim>\<open>-\<close> and the literal \<^verbatim>\<open>0.1\<close> are the
  parameters \<open>add\<close>, \<open>sub\<close> and \<open>tenth\<close>.
\<close>

definition main_locate_with ::
  "('a \<Rightarrow> 'a \<Rightarrow> 'a) \<Rightarrow> ('a \<Rightarrow> 'a \<Rightarrow> 'a) \<Rightarrow> 'a::{ord,zero} \<Rightarrow>
   'a list \<Rightarrow> 'a \<Rightarrow> 'a \<Rightarrow> py_exc + 'a aligned_range" where
  "main_locate_with add sub tenth keyframes args_start args_end =
     (if keyframes \<noteq> [] then
        (let s = find_keyframe_before_or_equal keyframes args_start in
         case find_keyframe_after_or_equal keyframes args_end of
           Inl exc \<Rightarrow> Inl exc
         | Inr e0 \<Rightarrow>
             (let e = (if e0 \<le> s then py_max2 args_end (add s tenth) else e0)
              in Inr \<lparr>start_kf = s, end_kf = e, duration = py_max2 tenth (sub e s)\<rparr>))
      else
        Inr \<lparr>start_kf = args_start, end_kf = args_end,
             duration = py_max2 tenth (sub args_end args_start)\<rparr>)"

text \<open>The locator on real numbers, with exact addition and subtraction.\<close>

definition main_locate :: "real list \<Rightarrow> real \<Rightarrow> real \<Rightarrow> py_exc + real aligned_range" where
  "main_locate = main_locate_with (+) (-) 0.1"

subsection \<open>The locator on binary64 values\<close>

text \<open>
  A Python float is a finite number, an infinity or NaN (\<^verbatim>\<open>--start\<close> and \<^verbatim>\<open>--end\<close>
  accept \<^verbatim>\<open>inf\<close> and \<^verbatim>\<open>nan\<close>). \<open>Finite x\<close> is the double of value \<open>x\<close> (the two
  zeros compare equal and are one value here). The comparisons are those of IEEE 754:
  every comparison with NaN is false. The literal \<^verbatim>\<open>0.1\<close> is \<open>Finite 0.1\<close>, standing
  for the double nearest to it. The sum and the difference of two doubles are rounded by
  the machine, so they are the parameters \<open>fadd\<close> and \<open>fsub\<close>.
\<close>

datatype pyfloat = Finite real | PosInf | NegInf | NaN

instantiation pyfloat :: "{ord, zero}"
begin

definition zero_pyfloat :: pyfloat where
  "zero_pyfloat = Finite 0"

fun less_pyfloat :: "pyfloat \<Rightarrow> pyfloat \<Rightarrow> bool" where
  "less_pyfloat NaN y = False"
| "less_pyfloat x NaN = False"
| "less_pyfloat (Finite a) (Finite b) = (a < b)"
| "less_pyfloat x PosInf = (x \<noteq> PosInf)"
| "less_pyfloat NegInf y = (y \<noteq> NegInf)"
| "less_pyfloat x y = False"

fun less_eq_pyfloat :: "pyfloat \<Rightarrow> pyfloat \<Rightarrow> bool" where
  "less_eq_pyfloat NaN y = False"
| "less_eq_pyfloat x NaN = False"
| "less_eq_pyfloat (Finite a) (Finite b) = (a \<le> b)"
| "less_eq_pyfloat x PosInf = True"
| "less_eq_pyfloat NegInf y = True"
| "less_eq_pyfloat x y = False"

instance ..

end

definition main_locate_f64 ::
  "(pyfloat \<Rightarrow> pyfloat \<Rightarrow> pyfloat) \<Rightarrow> (pyfloat \<Rightarrow> pyfloat \<Rightarrow> pyfloat) \<Rightarrow>
   pyfloat list \<Rightarrow> pyfloat \<Rightarrow> pyfloat \<Rightarrow> py_exc + pyfloat aligned_range" where
  "main_locate_f64 fadd fsub = main_locate_with fadd fsub (Finite 0.1)"

subsection \<open>Paths and the filter expression\<close>

text \<open>
  A Python \<^verbatim>\<open>str\<close> is a \<open>string\<close>, one \<open>char\<close> for each character (the model
  covers paths of one-byte characters). \<^verbatim>\<open>os.path.abspath\<close> is library code that
  reads the working directory of the process: the functions take it as the parameter
  \<open>abspath\<close>. \<^verbatim>\<open>.replace("\\", "/")\<close> replaces every backslash (\<open>CHR 0x5C\<close>);
  \<^verbatim>\<open>.replace(":", "\\:", 1)\<close> replaces the first colon only.
\<close>

definition to_forward_slashes :: "string \<Rightarrow> string" where
  "to_forward_slashes p = map (\<lambda>c. if c = CHR 0x5C then CHR ''/'' else c) p"

fun replace_first :: "char \<Rightarrow> string \<Rightarrow> string \<Rightarrow> string" where
  "replace_first old new [] = []"
| "replace_first old new (c # cs) =
     (if c = old then new @ cs else c # replace_first old new cs)"

text \<open>\<^verbatim>\<open>abs_path[1:3]\<close> is \<open>take 2 (drop 1 abs_path)\<close>; a slice never raises.\<close>

definition fix_path_for_ffmpeg :: "(string \<Rightarrow> string) \<Rightarrow> string \<Rightarrow> string" where
  "fix_path_for_ffmpeg abspath path =
     (let abs_path = to_forward_slashes (abspath path)
      in if CHR '':'' \<in> set (take 2 (drop 1 abs_path))
         then replace_first (CHR '':'') [CHR 0x5C, CHR '':''] abs_path
         else abs_path)"

text \<open>\<^verbatim>\<open>str(crf)\<close>: the decimal digits of an integer.\<close>

definition digit_char :: "nat \<Rightarrow> char" where
  "digit_char d = ''0123456789'' ! d"

fun str_nat :: "nat \<Rightarrow> string" where
  "str_nat n = (if n < 10 then [digit_char n] else str_nat (n div 10) @ [digit_char (n mod 10)])"

definition str_int :: "int \<Rightarrow> string" where
  "str_int i = (if i < 0 then CHR ''-'' # str_nat (nat (- i)) else str_nat (nat i))"

definition scale_pad :: string where
  "scale_pad =
     ''scale=1080:1920:force_original_aspect_ratio=decrease,'' @
     ''pad=1080:1920:(ow-iw)/2:(oh-ih)/2,setsar=1''"

text \<open>
  \<^verbatim>\<open>build_ffmpeg_command\<close>. The formatting \<^verbatim>\<open>f"{x:.3f}"\<close> of a float is a built-in,
  the parameter \<open>fmt3\<close>. \<^verbatim>\<open>if srt_path:\<close> is false for \<^verbatim>\<open>None\<close> and for the
  empty string. The apostrophe is \<open>CHR 0x27\<close>. The parameters \<^verbatim>\<open>start_kf\<close> and
  \<^verbatim>\<open>duration\<close> are written \<open>ss\<close> and \<open>dur\<close> (the names are the fields of
  \<open>aligned_range\<close> here).
\<close>

definition build_ffmpeg_command ::
  "(string \<Rightarrow> string) \<Rightarrow> (real \<Rightarrow> string) \<Rightarrow>
   string \<Rightarrow> string option \<Rightarrow> real \<Rightarrow> real \<Rightarrow> string \<Rightarrow> int \<Rightarrow> string \<Rightarrow> string list" where
  "build_ffmpeg_command abspath fmt3 input_path srt_path ss dur output_path crf preset =
     (let vf =
        (case srt_path of
           None \<Rightarrow> scale_pad
         | Some p \<Rightarrow>
             if p \<noteq> [] then
               (let srt_fixed = fix_path_for_ffmpeg abspath p;
                    subtitles =
                      ''subtitles='' @ [CHR 0x27] @ srt_fixed @ [CHR 0x27] @ '':'' @
                      ''force_style='' @ [CHR 0x27] @ ''Fontsize=36,PrimaryColour=&HFFFFFF&'' @
                      [CHR 0x27]
                in scale_pad @ '','' @ subtitles)
             else scale_pad)
      in [''ffmpeg'', ''-y'',
          ''-ss'', fmt3 ss,
          ''-i'', to_forward_slashes (abspath input_path),
          ''-t'', fmt3 dur,
          ''-vf'', vf,
          ''-af'', ''loudnorm=I=-16:TP=-1.5:LRA=11'',
          ''-c:v'', ''libx264'',
          ''-crf'', str_int crf,
          ''-preset'', preset,
          ''-r'', ''30'',
          ''-c:a'', ''aac'',
          ''-b:a'', ''192k'',
          to_forward_slashes (abspath output_path)])"

subsection \<open>Running the Encoder\<close>





subsection \<open>\<^verbatim>\<open>main\<close>\<close>

text \<open>
  The parsed arguments are a record. What \<^verbatim>\<open>main\<close> reads from outside the program
  is the \<open>world\<close>: the file test, \<^verbatim>\<open>os.path.abspath\<close>, the float formatting, the
  result of \<^verbatim>\<open>get_keyframe_times\<close> (the Prober and the parsing of its output: the
  sorted timestamps, or the exception that surfaces) and the Encoder. The numbers of
  \<open>main\<close> are the real ones: what it runs and catches does not depend on them.
\<close>

record args =
  args_input :: string
  args_start :: real
  args_end :: real
  args_srt :: "string option"
  args_output :: string




subsection \<open>Instances of the library functions, for evaluation\<close>

text \<open>
  \<^verbatim>\<open>os.path.abspath\<close> on POSIX, for a working directory \<open>cwd\<close> without a trailing
  slash and a path without empty, \<^verbatim>\<open>.\<close> or \<^verbatim>\<open>..\<close> components: an absolute path is
  returned as it is, a relative one is joined to \<open>cwd\<close>. \<^verbatim>\<open>f"{x:.3f}"\<close> for a
  non-negative number of milliseconds that needs no rounding. The float addition and
  subtraction where the result is a double and needs no rounding. A world in which every
  file exists, the Prober finds the keyframes \<open>0\<close> and \<open>10\<close> and the Encoder ends as
  the given process, and the arguments \<^verbatim>\<open>-i in.mp4 --start 1 --end 1.05\<close>.
\<close>

definition posix_abspath :: "string \<Rightarrow> string \<Rightarrow> string" where
  "posix_abspath cwd p = (if take 1 p = ''/'' then p else cwd @ ''/'' @ p)"

definition pad3 :: "nat \<Rightarrow> string" where
  "pad3 n = [digit_char (n div 100), digit_char (n div 10 mod 10), digit_char (n mod 10)]"

definition format_3f_millis :: "real \<Rightarrow> string" where
  "format_3f_millis x =
     (let n = nat \<lfloor>x * 1000\<rfloor> in str_nat (n div 1000) @ ''.'' @ pad3 (n mod 1000))"

fun exact_add :: "pyfloat \<Rightarrow> pyfloat \<Rightarrow> pyfloat" where
  "exact_add NaN y = NaN"
| "exact_add x NaN = NaN"
| "exact_add (Finite a) (Finite b) = Finite (a + b)"
| "exact_add PosInf NegInf = NaN"
| "exact_add NegInf PosInf = NaN"
| "exact_add PosInf y = PosInf"
| "exact_add x PosInf = PosInf"
| "exact_add NegInf y = NegInf"
| "exact_add x NegInf = NegInf"

fun negate :: "pyfloat \<Rightarrow> pyfloat" where
  "negate (Finite a) = Finite (- a)"
| "negate PosInf = NegInf"
| "negate NegInf = PosInf"
| "negate NaN = NaN"

definition exact_sub :: "pyfloat \<Rightarrow> pyfloat \<Rightarrow> pyfloat" where
  "exact_sub x y = exact_add x (negate y)"



text \<open>
  The shape the specification calls a drive-letter prefix: one ASCII letter, then a colon.
\<close>

definition is_ascii_letter :: "char \<Rightarrow> bool" where
  "is_ascii_letter c =
     (c \<in> set ''ABCDEFGHIJKLMNOPQRSTUVWXYZabcdefghijklmnopqrstuvwxyz'')"

declare str_nat.simps [simp del]

section \<open>Properties of the built-ins\<close>

lemma py_max_from_fold: "py_max_from m xs = fold max xs m"
  for m :: "'a::linorder"
  by (induction xs arbitrary: m) (auto simp: max_def)

lemma py_min_from_fold: "py_min_from m xs = fold min xs m"
  for m :: "'a::linorder"
  by (induction xs arbitrary: m) (auto simp: min_def)

lemma py_max_from_eq: "py_max_from m xs = Max (set (m # xs))"
  for m :: "'a::linorder"
  by (simp only: py_max_from_fold Max.set_eq_fold)

lemma py_min_from_eq: "py_min_from m xs = Min (set (m # xs))"
  for m :: "'a::linorder"
  by (simp only: py_min_from_fold Min.set_eq_fold)

lemma py_max_default_eq:
  "py_max_default xs d = (if xs = [] then d else Max (set xs))"
  for d :: "'a::linorder"
  by (cases xs) (simp_all add: py_max_default_def py_max_from_eq)

lemma py_min_default_eq:
  "py_min_default xs d = (if xs = [] then d else Min (set xs))"
  for d :: "'a::linorder"
  by (cases xs) (simp_all add: py_min_default_def py_min_from_eq)

section \<open>The locator\<close>

lemma find_keyframe_before_or_equal_eq:
  "find_keyframe_before_or_equal K t =
     (if \<exists>k\<in>set K. k \<le> t then Max {k \<in> set K. k \<le> t} else 0)"
  by (auto simp: find_keyframe_before_or_equal_def py_max_default_eq filter_empty_conv)

lemma find_keyframe_after_or_equal_eq:
  "find_keyframe_after_or_equal K t =
     Inr (if K = [] then t
          else if \<exists>k\<in>set K. t \<le> k then Min {k \<in> set K. t \<le> k} else last K)"
  by (auto simp: find_keyframe_after_or_equal_def py_index_last_def py_min_default_eq
      filter_empty_conv)

lemma sorted_le_last: "sorted K \<Longrightarrow> k \<in> set K \<Longrightarrow> k \<le> last K"
  for K :: "'a::linorder list"
  by (induction K) auto

lemma sorted_last_Max: "sorted K \<Longrightarrow> K \<noteq> [] \<Longrightarrow> last K = Max (set K)"
  for K :: "'a::linorder list"
  by (rule Max_eqI [symmetric]) (auto simp: sorted_le_last)


lemma main_locate_nonempty:
  "K \<noteq> [] \<Longrightarrow> main_locate K s e =
     (let st = find_keyframe_before_or_equal K s;
          a = (if \<exists>k\<in>set K. e \<le> k then Min {k \<in> set K. e \<le> k} else last K);
          en = (if a \<le> st then py_max2 e (st + 0.1) else a)
      in Inr \<lparr>start_kf = st, end_kf = en, duration = py_max2 0.1 (en - st)\<rparr>)"
  by (simp add: main_locate_def main_locate_with_def find_keyframe_after_or_equal_eq Let_def)

lemma main_locate_empty:
  "main_locate [] s e = Inr \<lparr>start_kf = s, end_kf = e, duration = py_max2 0.1 (e - s)\<rparr>"
  by (simp add: main_locate_def main_locate_with_def)

lemma main_locate_Inr: "\<exists>r. main_locate K s e = Inr r"
  by (cases "K = []") (simp_all add: main_locate_empty main_locate_nonempty Let_def)

lemma find_keyframe_after_or_equal_sorted:
  assumes "K \<noteq> []" and "sorted K"
  shows "\<exists>a. find_keyframe_after_or_equal K e = Inr a \<and>
           (if \<exists>k\<in>set K. e \<le> k then a \<in> set K \<and> e \<le> a else a = Max (set K))"
proof (cases "\<exists>k\<in>set K. e \<le> k")
  case True
  let ?S = "{k \<in> set K. e \<le> k}"
  have "finite ?S" and "?S \<noteq> {}" using True by auto
  then have "Min ?S \<in> ?S" by (rule Min_in)
  with True assms(1) show ?thesis
    by (simp add: find_keyframe_after_or_equal_eq)
next
  case False
  with assms show ?thesis
    by (simp add: find_keyframe_after_or_equal_eq sorted_last_Max)
qed

lemma main_locate_end_kf:
  assumes "K \<noteq> []" and "find_keyframe_after_or_equal K e = Inr a"
  shows "\<exists>r. main_locate K s e = Inr r \<and>
           start_kf r = find_keyframe_before_or_equal K s \<and>
           end_kf r = (if start_kf r < a then a else max e (start_kf r + 0.1))"
  using assms by (simp add: main_locate_def main_locate_with_def Let_def py_max2_def max_def not_less)

text \<open>
  Claim C1, as amended. For a non-empty sorted keyframe list \<open>K\<close> and a requested range
  \<open>(s, e)\<close> with \<open>s \<le> e\<close>, let \<open>a\<close> be the result of
  \<open>find_keyframe_after_or_equal K e\<close>: an element of \<open>K\<close> that is \<open>\<ge> e\<close>, or the
  maximum of \<open>K\<close> when \<open>K\<close> has no such element. The aligned end is \<open>a\<close> when \<open>a\<close> is
  greater than the aligned start; otherwise the correction of \<^verbatim>\<open>main\<close> replaces it by
  \<open>max e (start + 0.1)\<close>, which need not be a keyframe.
\<close>

theorem C1_aligned_end:
  assumes "K \<noteq> []" and "sorted K" and "s \<le> e"
  shows "\<exists>r a. main_locate K s e = Inr r \<and> find_keyframe_after_or_equal K e = Inr a \<and>
           (if \<exists>k\<in>set K. e \<le> k then a \<in> set K \<and> e \<le> a else a = Max (set K)) \<and>
           end_kf r = (if start_kf r < a then a else max e (start_kf r + 0.1))"
proof -
  from find_keyframe_after_or_equal_sorted [OF assms(1,2), of e]
  obtain a where a: "find_keyframe_after_or_equal K e = Inr a"
    and el: "if \<exists>k\<in>set K. e \<le> k then a \<in> set K \<and> e \<le> a else a = Max (set K)"
    by blast
  from main_locate_end_kf [OF assms(1) a, of s]
  obtain r where "main_locate K s e = Inr r"
    and "end_kf r = (if start_kf r < a then a else max e (start_kf r + 0.1))"
    by blast
  with a el show ?thesis by blast
qed

theorem C1_witness:
  "[0, 2, 4, 6] \<noteq> ([] :: real list) \<and> sorted [0, 2, 4, 6 :: real] \<and> (2.5 :: real) \<le> 5 \<and>
   (\<exists>r a. main_locate [0, 2, 4, 6] 2.5 5 = Inr r \<and>
      find_keyframe_after_or_equal [0, 2, 4, 6] 5 = Inr a \<and>
      a \<in> set [0, 2, 4, 6] \<and> 5 \<le> a \<and>
      end_kf r = (if start_kf r < a then a else max 5 (start_kf r + 0.1)))"
  using C1_aligned_end [of "[0, 2, 4, 6]" "2.5" 5] by simp

text \<open>
  The claim as it is written fails at \<open>K = [5]\<close> and the range \<open>(5, 5)\<close>: \<open>5\<close> is an
  element of \<open>K\<close> that is \<open>\<ge> e\<close>, the raw aligned end \<open>5\<close> is not greater than the
  aligned start \<open>5\<close>, and the aligned end becomes \<open>5.1\<close>, which is not in \<open>K\<close>.
\<close>

theorem C1_counterexample:
  "[5] \<noteq> ([] :: real list) \<and> sorted [5 :: real] \<and> (5 :: real) \<le> 5 \<and>
   (5 :: real) \<in> set [5] \<and>
   main_locate [5] 5 5 = Inr \<lparr>start_kf = 5, end_kf = 5.1, duration = 0.1\<rparr> \<and>
   (5.1 :: real) \<notin> set [5]"
  by (simp add: main_locate_def main_locate_with_def find_keyframe_before_or_equal_def find_keyframe_after_or_equal_def
      py_index_last_def py_max_default_def py_min_default_def py_max2_def)

subsection \<open>End after start, on binary64 values\<close>

lemma py_max_from_in: "py_max_from m xs \<in> set (m # xs)"
  by (induction xs arbitrary: m) auto

lemma py_min_from_in: "py_min_from m xs \<in> set (m # xs)"
  by (induction xs arbitrary: m) auto

lemma py_max_default_in: "xs \<noteq> [] \<Longrightarrow> py_max_default xs d \<in> set xs"
  using py_max_from_in by (cases xs) (auto simp: py_max_default_def)

lemma py_min_default_in: "xs \<noteq> [] \<Longrightarrow> py_min_default xs d \<in> set xs"
  using py_min_from_in by (cases xs) (auto simp: py_min_default_def)

lemma pyfloat_not_le: "x \<noteq> NaN \<Longrightarrow> y \<noteq> NaN \<Longrightarrow> \<not> y \<le> x \<Longrightarrow> x < y"
  for x y :: pyfloat
  by (cases x; cases y) auto

lemma pyfloat_less_not_NaN: "x < y \<Longrightarrow> x \<noteq> NaN \<and> y \<noteq> NaN"
  for x y :: pyfloat
  by (cases x; cases y) auto

lemma pyfloat_le_not_NaN: "x \<le> y \<Longrightarrow> x \<noteq> NaN \<and> y \<noteq> NaN"
  for x y :: pyfloat
  by (cases x; cases y) auto

lemma pyfloat_less_trans: "x < y \<Longrightarrow> y < z \<Longrightarrow> x < z"
  for x y z :: pyfloat
  by (cases x; cases y; cases z) auto

lemma find_keyframe_before_or_equal_not_NaN:
  "find_keyframe_before_or_equal K s \<noteq> NaN"
proof (cases "filter (\<lambda>kf. kf \<le> s) K = []")
  case True
  then show ?thesis
    by (simp add: find_keyframe_before_or_equal_def py_max_default_def zero_pyfloat_def)
next
  case False
  from py_max_default_in [OF False, of 0]
  have "find_keyframe_before_or_equal K s \<le> s"
    by (simp add: find_keyframe_before_or_equal_def)
  then show ?thesis using pyfloat_le_not_NaN by blast
qed

lemma find_keyframe_after_or_equal_not_NaN:
  assumes "K \<noteq> []" and "NaN \<notin> set K"
  shows "\<exists>a. find_keyframe_after_or_equal K e = Inr a \<and> a \<noteq> NaN"
proof (cases "filter (\<lambda>kf. kf \<ge> e) K = []")
  case True
  have "last K \<in> set K" using assms(1) by (rule last_in_set)
  then have "last K \<noteq> NaN" using assms(2) by metis
  with assms(1) True show ?thesis
    by (simp add: find_keyframe_after_or_equal_def py_index_last_def py_min_default_def)
next
  case False
  from py_min_default_in [OF False, of "last K"]
  have "py_min_default (filter (\<lambda>kf. kf \<ge> e) K) (last K) \<in> set K" by simp
  with assms show ?thesis
    by (auto simp: find_keyframe_after_or_equal_def py_index_last_def)
qed

lemma main_locate_f64_empty:
  "main_locate_f64 fadd fsub [] s e =
     Inr \<lparr>start_kf = s, end_kf = e, duration = py_max2 (Finite 0.1) (fsub e s)\<rparr>"
  by (simp add: main_locate_f64_def main_locate_with_def)

lemma main_locate_f64_nonempty:
  assumes "K \<noteq> []" and "find_keyframe_after_or_equal K e = Inr a"
  shows "main_locate_f64 fadd fsub K s e =
     (let st = find_keyframe_before_or_equal K s;
          en = (if a \<le> st then py_max2 e (fadd st (Finite 0.1)) else a)
      in Inr \<lparr>start_kf = st, end_kf = en, duration = py_max2 (Finite 0.1) (fsub en st)\<rparr>)"
  using assms by (simp add: main_locate_f64_def main_locate_with_def Let_def)

lemma corrected_end_after_start:
  assumes "e \<noteq> NaN" and "st < f"
  shows "st < py_max2 e f"
proof (cases "e < f")
  case True
  with assms show ?thesis by (simp add: py_max2_def)
next
  case False
  have "f \<noteq> NaN" using assms(2) pyfloat_less_not_NaN by blast
  with assms False show ?thesis
    by (cases st; cases e; cases f) (auto simp: py_max2_def)
qed

text \<open>
  Claim C2, as amended. For the empty keyframe list start and end are the requested
  ones, so \<open>end > start\<close> holds exactly when the requested \<open>e > s\<close>: the floor changes
  the duration only. For a non-empty keyframe list without NaN and a requested end that
  is not NaN, the aligned range has \<open>end > start\<close>, provided the float sum
  \<open>start_kf + 0.1\<close> is greater than \<open>start_kf\<close>. The statement is on the binary64
  locator, for every float addition and subtraction.
\<close>

theorem C2_end_after_start:
  "\<exists>r. main_locate_f64 fadd fsub K s e = Inr r \<and>
        (K = [] \<longrightarrow> (start_kf r < end_kf r) = (s < e)) \<and>
        (K \<noteq> [] \<and> NaN \<notin> set K \<and> e \<noteq> NaN \<and>
         start_kf r < fadd (start_kf r) (Finite 0.1) \<longrightarrow> start_kf r < end_kf r)"
proof (cases "K = []")
  case True
  then show ?thesis by (simp add: main_locate_f64_empty)
next
  case False
  show ?thesis
  proof (cases "NaN \<in> set K")
    case True
    obtain a where "find_keyframe_after_or_equal K e = Inr a"
      using False by (auto simp: find_keyframe_after_or_equal_def py_index_last_def)
    with False True show ?thesis
      by (simp add: main_locate_f64_nonempty Let_def)
  next
    case nan: False
    from find_keyframe_after_or_equal_not_NaN [OF False nan, of e]
    obtain a where a: "find_keyframe_after_or_equal K e = Inr a" and "a \<noteq> NaN" by blast
    let ?st = "find_keyframe_before_or_equal K s"
    have st: "?st \<noteq> NaN" by (rule find_keyframe_before_or_equal_not_NaN)
    have 1: "\<not> a \<le> ?st \<Longrightarrow> ?st < a"
      using st \<open>a \<noteq> NaN\<close> by (rule pyfloat_not_le)
    have 2: "e \<noteq> NaN \<Longrightarrow> ?st < fadd ?st (Finite 0.1) \<Longrightarrow> ?st < py_max2 e (fadd ?st (Finite 0.1))"
      by (rule corrected_end_after_start)
    from False a 1 2 show ?thesis
      by (simp add: main_locate_f64_nonempty Let_def)
  qed
qed

theorem C2_witness:
  "[Finite 5] \<noteq> [] \<and> NaN \<notin> set [Finite 5] \<and> Finite 5 \<noteq> NaN \<and>
   Finite 5 < exact_add (Finite 5) (Finite 0.1) \<and>
   (\<exists>r. main_locate_f64 exact_add exact_sub [Finite 5] (Finite 5) (Finite 5) = Inr r \<and>
        start_kf r = Finite 5 \<and> start_kf r < end_kf r)"
proof -
  have st: "find_keyframe_before_or_equal [Finite 5] (Finite 5) = Finite 5"
    by (simp add: find_keyframe_before_or_equal_def py_max_default_def)
  have "find_keyframe_after_or_equal [Finite 5] (Finite 5) = Inr (Finite 5)"
    by (simp add: find_keyframe_after_or_equal_def py_index_last_def py_min_default_def)
  then have r: "start_kf r = Finite 5"
    if "main_locate_f64 exact_add exact_sub [Finite 5] (Finite 5) (Finite 5) = Inr r" for r
    using that st by (auto simp: main_locate_f64_nonempty Let_def)
  from C2_end_after_start [of exact_add exact_sub "[Finite 5]" "Finite 5" "Finite 5"]
  show ?thesis using r by auto
qed

text \<open>
  The claim as it is written fails for the empty list and the range \<open>(7, 3)\<close>: the
  aligned range is \<open>(7, 3)\<close> with duration \<open>0.1\<close>, and \<open>3 > 7\<close> is false.
\<close>

theorem C2_counterexample:
  "main_locate_f64 exact_add exact_sub [] (Finite 7) (Finite 3) =
     Inr \<lparr>start_kf = Finite 7, end_kf = Finite 3, duration = Finite 0.1\<rparr> \<and>
   \<not> Finite 7 < Finite 3"
  by (simp add: main_locate_f64_def main_locate_with_def py_max2_def exact_sub_def)


text \<open>
  Why the second part has its provisos: a sum that rounding leaves at \<open>start_kf\<close> (as
  binary64 does at \<open>10 ^ 16\<close>) gives \<open>end = start\<close>, and a NaN end stays NaN.
\<close>

lemma absorbed_sum_example:
  assumes "fadd (Finite (10 ^ 16)) (Finite 0.1) = Finite (10 ^ 16)"
  shows "\<exists>r. main_locate_f64 fadd fsub [Finite (10 ^ 16)] (Finite (10 ^ 16)) (Finite (10 ^ 16)) = Inr r \<and>
             end_kf r = start_kf r"
proof -
  have "find_keyframe_after_or_equal [Finite (10 ^ 16)] (Finite (10 ^ 16)) = Inr (Finite (10 ^ 16))"
    by (simp add: find_keyframe_after_or_equal_def py_index_last_def py_min_default_def)
  moreover have "find_keyframe_before_or_equal [Finite (10 ^ 16)] (Finite (10 ^ 16)) = Finite (10 ^ 16)"
    by (simp add: find_keyframe_before_or_equal_def py_max_default_def)
  ultimately show ?thesis using assms
    by (simp add: main_locate_f64_nonempty Let_def py_max2_def)
qed

lemma nan_end_example:
  "\<exists>r. main_locate_f64 fadd fsub [Finite 5] (Finite 5) NaN = Inr r \<and> end_kf r = NaN"
proof -
  have "find_keyframe_after_or_equal [Finite 5] NaN = Inr (Finite 5)"
    by (simp add: find_keyframe_after_or_equal_def py_index_last_def py_min_default_def)
  moreover have "find_keyframe_before_or_equal [Finite 5] (Finite 5) = Finite 5"
    by (simp add: find_keyframe_before_or_equal_def py_max_default_def)
  ultimately show ?thesis
    by (cases "fadd (Finite 5) (Finite 0.1)") (simp_all add: main_locate_f64_nonempty Let_def py_max2_def)
qed

subsection \<open>Duration, start, passthrough and totality\<close>

text \<open>
  Claim C3. For every keyframe list, empty or not, and every requested range, also with
  \<open>s = e\<close> or \<open>s > e\<close>, the locator returns and the duration is at least \<open>0.1\<close>.
\<close>

theorem C3_duration_floor:
  "\<exists>r. main_locate K s e = Inr r \<and> duration r \<ge> 0.1"
  by (cases "K = []") (simp_all add: main_locate_empty main_locate_nonempty Let_def py_max2_def)

text \<open>
  Claim C4. For a non-empty sorted keyframe list \<open>K\<close> and a requested range \<open>(s, e)\<close>
  with \<open>s \<le> e\<close>, the aligned start is an element of \<open>K\<close> that is \<open>\<le> s\<close>, or exactly
  \<open>0.0\<close> when \<open>K\<close> has no element \<open>\<le> s\<close>.
\<close>

theorem C4_aligned_start:
  assumes "K \<noteq> []" and "sorted K" and "s \<le> e"
  shows "\<exists>r. main_locate K s e = Inr r \<and>
           (if \<exists>k\<in>set K. k \<le> s then start_kf r \<in> set K \<and> start_kf r \<le> s
            else start_kf r = 0.0)"
proof (cases "\<exists>k\<in>set K. k \<le> s")
  case True
  let ?S = "{k \<in> set K. k \<le> s}"
  have "finite ?S" and "?S \<noteq> {}" using True by auto
  then have "Max ?S \<in> ?S" by (rule Max_in)
  with True assms(1) show ?thesis
    by (simp add: main_locate_nonempty find_keyframe_before_or_equal_eq Let_def)
next
  case False
  with assms(1) show ?thesis
    by (simp add: main_locate_nonempty find_keyframe_before_or_equal_eq Let_def)
qed

theorem C4_witness:
  "[0, 2, 4, 6] \<noteq> ([] :: real list) \<and> sorted [0, 2, 4, 6 :: real] \<and> (2.5 :: real) \<le> 5 \<and>
   (\<exists>r. main_locate [0, 2, 4, 6] 2.5 5 = Inr r \<and> start_kf r \<in> set [0, 2, 4, 6] \<and> start_kf r \<le> 2.5)"
  using C4_aligned_start [of "[0, 2, 4, 6]" "2.5" 5] by simp

text \<open>
  Claim C5. For the empty keyframe list the locator returns the requested start and end
  unchanged.
\<close>

theorem C5_passthrough:
  "\<exists>r. main_locate [] s e = Inr r \<and> start_kf r = s \<and> end_kf r = e"
  by (simp add: main_locate_empty)

text \<open>
  Claim C7. For \<open>K = [0.0, 10.0]\<close> and the requested range \<open>(1.0, 1.05)\<close> the locator
  returns start \<open>0.0\<close>, end \<open>10.0\<close> and duration \<open>10.0\<close>.
\<close>

theorem C7_scenario:
  "main_locate [0.0, 10.0] 1.0 1.05 = Inr \<lparr>start_kf = 0.0, end_kf = 10.0, duration = 10.0\<rparr>"
  by (simp add: main_locate_def main_locate_with_def find_keyframe_before_or_equal_def find_keyframe_after_or_equal_def
      py_index_last_def py_max_default_def py_min_default_def py_max2_def)

text \<open>
  Claim C10. \<open>find_keyframe_after_or_equal\<close> returns a value for every list and every
  \<open>t\<close>: the \<^verbatim>\<open>IndexError\<close> of \<^verbatim>\<open>times[-1]\<close> is never reached, and on the empty list
  the result is \<open>t\<close>.
\<close>

theorem C10_total:
  "(\<exists>v. find_keyframe_after_or_equal tms t = Inr v) \<and> find_keyframe_after_or_equal [] t = Inr t"
  by (simp add: find_keyframe_after_or_equal_def py_index_last_def py_min_default_def)

section \<open>Paths, the command and the runner\<close>



lemma fix_path_for_ffmpeg_drive_letter:
  assumes "to_forward_slashes (abspath path) = c # CHR '':'' # rest" and "is_ascii_letter c"
  shows "fix_path_for_ffmpeg abspath path = c # CHR 0x5C # CHR '':'' # rest"
proof -
  have "c \<noteq> CHR '':''" using assms(2) by (auto simp: is_ascii_letter_def)
  with assms(1) show ?thesis by (simp add: fix_path_for_ffmpeg_def Let_def)
qed

lemma fix_path_for_ffmpeg_home_user:
  "fix_path_for_ffmpeg (posix_abspath ''/w'') ''/home/user/a.srt'' = ''/home/user/a.srt''"
  by (simp add: fix_path_for_ffmpeg_def to_forward_slashes_def posix_abspath_def)

text \<open>
  Claim C6. The claim holds for a path whose absolute form begins with a letter and a
  colon (\<open>fix_path_for_ffmpeg_drive_letter\<close>) and at \<^verbatim>\<open>/home/user/a.srt\<close>, but the
  code does not keep its second half: the test \<^verbatim>\<open>":" in abs_path[1:3]\<close> also accepts
  a colon at index 2. At the POSIX path \<^verbatim>\<open>/a:b/c.srt\<close>, whose absolute form begins
  with a slash and not with a letter and a colon, the colon is escaped, against the
  docstring (\<^verbatim>\<open>escape colon after drive letter\<close>).
\<close>

theorem C6_code_at_failing_input:
  "to_forward_slashes (posix_abspath ''/w'' ''/a:b/c.srt'') = ''/a:b/c.srt'' \<and>
   \<not> is_ascii_letter CHR ''/'' \<and>
   fix_path_for_ffmpeg (posix_abspath ''/w'') ''/a:b/c.srt''
     = [CHR ''/'', CHR ''a'', CHR 0x5C] @ '':b/c.srt'' \<and>
   fix_path_for_ffmpeg (posix_abspath ''/w'') ''/a:b/c.srt''
     \<noteq> to_forward_slashes (posix_abspath ''/w'' ''/a:b/c.srt'')"
  by (simp add: fix_path_for_ffmpeg_def to_forward_slashes_def is_ascii_letter_def posix_abspath_def)




text \<open>
  Claim C9, as amended. \<open>build_ffmpeg_command\<close> depends on nothing but its arguments
  and on what \<^verbatim>\<open>os.path.abspath\<close> returns for its three paths: two calls with the same
  input path, subtitle path, aligned start, duration, output path and quality parameters
  give the same argument list whenever \<^verbatim>\<open>os.path.abspath\<close> resolves the input, the
  output and the subtitle path to the same strings at both calls (the same working
  directory, or absolute paths).
\<close>

theorem C9_build_same_paths:
  assumes "ab1 input_path = ab2 input_path" and "ab1 output_path = ab2 output_path"
    and "map_option ab1 srt_path = map_option ab2 srt_path"
  shows "build_ffmpeg_command ab1 fmt3 input_path srt_path ss dur output_path crf preset =
         build_ffmpeg_command ab2 fmt3 input_path srt_path ss dur output_path crf preset"
proof (cases srt_path)
  case None
  with assms show ?thesis by (simp add: build_ffmpeg_command_def)
next
  case (Some p)
  with assms(3) have "ab1 p = ab2 p" by simp
  then have "fix_path_for_ffmpeg ab1 p = fix_path_for_ffmpeg ab2 p"
    by (simp add: fix_path_for_ffmpeg_def)
  with Some assms(1,2) show ?thesis by (simp add: build_ffmpeg_command_def)
qed

theorem C9_witness:
  "posix_abspath ''/a'' ''/v/in.mp4'' = posix_abspath ''/b'' ''/v/in.mp4'' \<and>
   posix_abspath ''/a'' ''/v/out.mp4'' = posix_abspath ''/b'' ''/v/out.mp4'' \<and>
   map_option (posix_abspath ''/a'') (Some ''/v/s.srt'') =
     map_option (posix_abspath ''/b'') (Some ''/v/s.srt'') \<and>
   build_ffmpeg_command (posix_abspath ''/a'') format_3f_millis ''/v/in.mp4'' (Some ''/v/s.srt'')
     0 10 ''/v/out.mp4'' 18 ''veryfast'' =
   build_ffmpeg_command (posix_abspath ''/b'') format_3f_millis ''/v/in.mp4'' (Some ''/v/s.srt'')
     0 10 ''/v/out.mp4'' 18 ''veryfast''"
  using C9_build_same_paths [of "posix_abspath ''/a''" "''/v/in.mp4''" "posix_abspath ''/b''"
      "''/v/out.mp4''" "Some ''/v/s.srt''" format_3f_millis 0 10 18 "''veryfast''"]
  by (simp add: posix_abspath_def)

text \<open>
  The claim as it is written fails for the relative paths \<^verbatim>\<open>in.mp4\<close> and
  \<^verbatim>\<open>out.mp4\<close>: called in the working directory \<^verbatim>\<open>/a\<close> and in \<^verbatim>\<open>/b\<close> with the
  same arguments, the two argument lists differ.
\<close>

theorem C9_counterexample:
  "build_ffmpeg_command (posix_abspath ''/a'') format_3f_millis ''in.mp4'' None 0 10 ''out.mp4''
     18 ''veryfast'' \<noteq>
   build_ffmpeg_command (posix_abspath ''/b'') format_3f_millis ''in.mp4'' None 0 10 ''out.mp4''
     18 ''veryfast''"
  by (simp add: build_ffmpeg_command_def posix_abspath_def to_forward_slashes_def)


end
